theory Spec2Isabelle
  imports Main "HOL-Library.Multiset"
begin

section \<open>Python values, exceptions and files\<close>

text \<open>
  The records handled by \<^verbatim>\<open>usermigrate/main.py\<close> are what \<^verbatim>\<open>json.loads\<close> returns: \<^verbatim>\<open>None\<close>,
  booleans, integers, strings, lists and dicts. A dict is an association list in insertion
  order (its keys are distinct in Python); floating-point numbers are left out.
\<close>

datatype json =
    JNull
  | JBool bool
  | JInt int
  | JString string
  | JArray "json list"
  | JObject "(string \<times> json) list"

text \<open>
  Modelled from the spec: \<^verbatim>\<open>usermigrate/keycloak/exceptions.py\<close> is not among the sources. The
  three conditions of the Remote API Client (Conflict, Authentication, Communication) are three
  unrelated exception classes derived from \<^verbatim>\<open>Exception\<close>. The other classes are Python's own or
  those of the libraries the script imports; \<open>KeyboardInterrupt\<close> stands for the exceptions
  that derive from \<^verbatim>\<open>BaseException\<close> but not from \<^verbatim>\<open>Exception\<close>.
\<close>

datatype exn_class =
    KeycloakConflictError
  | KeycloakAuthenticationError
  | KeycloakCommunicationError
  | ConnectionError
  | ProgrammingError
  | FileNotFoundError
  | JSONDecodeError
  | KeyError
  | TypeError
  | AttributeError
  | OtherException
  | KeyboardInterrupt

datatype exn = Exn (cls: exn_class) (msg: string)

text \<open>\<^verbatim>\<open>except Exception\<close> catches every class but the ones outside \<^verbatim>\<open>Exception\<close>.\<close>

definition isinstance_Exception :: "exn \<Rightarrow> bool" where
  "isinstance_Exception e = (cls e \<noteq> KeyboardInterrupt)"

abbreviation newline :: char where
  "newline \<equiv> CHR 0x0A"

abbreviation carriage_return :: char where
  "carriage_return \<equiv> CHR 0x0D"

abbreviation apostrophe :: char where
  "apostrophe \<equiv> CHR 0x27"

type_synonym path = string

text \<open>The file system: the text of every file that exists.\<close>

type_synonym fs = "path \<rightharpoonup> string"

definition os_path_exists :: "fs \<Rightarrow> path \<Rightarrow> bool" where
  "os_path_exists f p = (f p \<noteq> None)"

text \<open>\<^verbatim>\<open>os.remove\<close> raises \<^verbatim>\<open>FileNotFoundError\<close> when there is no such file.\<close>

definition os_remove :: "path \<Rightarrow> fs \<Rightarrow> exn + fs" where
  "os_remove p f =
     (case f p of
        None \<Rightarrow> Inl (Exn FileNotFoundError p)
      | Some _ \<Rightarrow> Inr (f(p := None)))"

text \<open>\<^verbatim>\<open>open(path, "a")\<close> creates the file, empty, when it does not exist.\<close>

definition open_append :: "path \<Rightarrow> fs \<Rightarrow> fs" where
  "open_append p f = (case f p of None \<Rightarrow> f(p \<mapsto> []) | Some _ \<Rightarrow> f)"

text \<open>A write to a file opened for appending adds the text at its end.\<close>

definition file_write :: "path \<Rightarrow> string \<Rightarrow> fs \<Rightarrow> fs" where
  "file_write p s f = (case f p of None \<Rightarrow> f | Some c \<Rightarrow> f(p \<mapsto> c @ s))"

section \<open>Outcome Log and Record Store\<close>

text \<open>
  \<^verbatim>\<open>
  def write_log_message(log_file_path, message):
      with open(log_file_path, "a") as log_file:
          log_file.write(f"{message}\n")
  \<close>
\<close>

definition write_log_message :: "path \<Rightarrow> string \<Rightarrow> fs \<Rightarrow> fs" where
  "write_log_message log_file_path message f =
     file_write log_file_path (message @ [newline]) (open_append log_file_path f)"

text \<open>
  \<^verbatim>\<open>
  def cache_object(cache_file_path, object_data):
      add_new_line = False
      if os.path.exists(cache_file_path):
          add_new_line = True
      with open(cache_file_path, "a") as cache_file:
          if add_new_line:
              cache_file.write("\n")
          cache_file.write(json.dumps(object_data))
  \<close>
  \<^verbatim>\<open>json.dumps\<close> belongs to Python's library and is the parameter \<open>dumps\<close>.
\<close>

definition cache_object :: "('r \<Rightarrow> string) \<Rightarrow> path \<Rightarrow> 'r \<Rightarrow> fs \<Rightarrow> fs" where
  "cache_object dumps cache_file_path object_data f =
     (let add_new_line = os_path_exists f cache_file_path;
          f1 = open_append cache_file_path f;
          f2 = (if add_new_line then file_write cache_file_path [newline] f1 else f1)
      in file_write cache_file_path (dumps object_data) f2)"

text \<open>
  Reading a cache back, as \<^verbatim>\<open>main\<close> does:
  \<^verbatim>\<open>
  users = []
  try:
      with open(file_input) as users_file:
          for line in users_file:
              users.append(json.loads(line))
  except Exception as e:
      LOG.error(f"Failed to load users from {file_input}: {e}")
      return
  \<close>
  A file opened for reading in text mode translates \<^verbatim>\<open>\r\n\<close> and \<^verbatim>\<open>\r\<close> to \<^verbatim>\<open>\n\<close>; iterating
  over it yields the lines, each with its final \<^verbatim>\<open>\n\<close> (the last line may have none).
\<close>

fun universal_newlines :: "string \<Rightarrow> string" where
  "universal_newlines [] = []"
| "universal_newlines [c] = (if c = carriage_return then [newline] else [c])"
| "universal_newlines (c # d # s) =
     (if c = carriage_return then
        (if d = newline then newline # universal_newlines s
         else newline # universal_newlines (d # s))
      else c # universal_newlines (d # s))"

fun file_lines :: "string \<Rightarrow> string list" where
  "file_lines [] = []"
| "file_lines (c # s) =
     (if c = newline then [c] # file_lines s
      else (case file_lines s of
              [] \<Rightarrow> [[c]]
            | l # ls \<Rightarrow> (c # l) # ls))"

fun load_lines :: "(string \<Rightarrow> exn + 'r) \<Rightarrow> string list \<Rightarrow> exn + 'r list" where
  "load_lines loads [] = Inr []"
| "load_lines loads (line # ls) =
     (case loads line of
        Inl e \<Rightarrow> Inl e
      | Inr u \<Rightarrow> (case load_lines loads ls of
                   Inl e \<Rightarrow> Inl e
                 | Inr us \<Rightarrow> Inr (u # us)))"

definition read_records :: "(string \<Rightarrow> exn + 'r) \<Rightarrow> path \<Rightarrow> fs \<Rightarrow> exn + 'r list" where
  "read_records loads file_input f =
     (case f file_input of
        None \<Rightarrow> Inl (Exn FileNotFoundError file_input)
      | Some content \<Rightarrow> load_lines loads (file_lines (universal_newlines content)))"

section \<open>The world the script runs in\<close>

text \<open>
  What the script reads of Python's library: \<^verbatim>\<open>json.dumps\<close>, \<^verbatim>\<open>json.loads\<close>, \<^verbatim>\<open>str\<close> of a
  value (as an f-string formats it) and the working directory \<^verbatim>\<open>os.path.abspath\<close> resolves a
  plain file name against.
\<close>

record pyenv =
  json_dumps :: "json \<Rightarrow> string"
  json_loads :: "string \<Rightarrow> exn + json"
  py_str :: "json \<Rightarrow> string"
  cwd :: path

definition abspath :: "pyenv \<Rightarrow> string \<Rightarrow> path" where
  "abspath py name = cwd py @ ''/'' @ name"

text \<open>
  The Remote API Client: \<^verbatim>\<open>api.post(object_type, value)\<close> raises, or returns a value of which
  only the truth is read; the server it talks to has a state of its own.
\<close>

type_synonym 'srv api = "string \<Rightarrow> json \<Rightarrow> 'srv \<Rightarrow> (exn + bool) \<times> 'srv"

text \<open>
  The state a run changes: the files, the server, and the list of the calls made to the Remote
  API Client so far.
\<close>

record 'srv world =
  files :: fs
  server :: 'srv
  calls :: "(string \<times> json) list"

section \<open>The per-record import procedure\<close>

datatype ImportResult = FAILED | LOADED | EXISTS | SKIPPED

text \<open>Python's truth value of a JSON value, as \<^verbatim>\<open>not name\<close> reads it.\<close>

fun py_truthy :: "json \<Rightarrow> bool" where
  "py_truthy JNull = False"
| "py_truthy (JBool b) = b"
| "py_truthy (JInt i) = (i \<noteq> 0)"
| "py_truthy (JString s) = (s \<noteq> [])"
| "py_truthy (JArray xs) = (xs \<noteq> [])"
| "py_truthy (JObject kvs) = (kvs \<noteq> [])"

text \<open>
  \<^verbatim>\<open>value.get(name_key)\<close>: \<^verbatim>\<open>None\<close> for a key the dict does not have; a value that is no dict has
  no method \<^verbatim>\<open>get\<close>.
\<close>

fun dict_get :: "json \<Rightarrow> string \<Rightarrow> exn + json" where
  "dict_get (JObject kvs) k = (case map_of kvs k of None \<Rightarrow> Inr JNull | Some v \<Rightarrow> Inr v)"
| "dict_get v k = Inl (Exn AttributeError ''get'')"

definition log_name_missing :: "pyenv \<Rightarrow> json \<Rightarrow> string" where
  "log_name_missing py v = ''Name field missing from '' @ py_str py v @ '', skipping''"

definition log_exists :: "pyenv \<Rightarrow> string \<Rightarrow> json \<Rightarrow> string" where
  "log_exists py object_type name =
     ''The '' @ object_type @ '' '' @ py_str py name @ '' already exists, cannot overwrite.''"

definition log_failed :: "pyenv \<Rightarrow> string \<Rightarrow> json \<Rightarrow> exn \<Rightarrow> string" where
  "log_failed py object_type v e =
     ''Failed to import '' @ object_type @ '' '' @ py_str py v @ '', error was: '' @ msg e"

text \<open>
  \<^verbatim>\<open>
  def import_value(value, object_type, name_key, api, log_file_path, retry_cache_path):
      name = value.get(name_key)
      if not name:
          write_log_message(log_file_path,
              f"Name field missing from {value}, skipping")
          cache_object(retry_cache_path, value)
          return ImportResult.SKIPPED
      try:
          success = api.post(object_type, value)
          if success:
              return ImportResult.LOADED
      except KeycloakConflictError:
          write_log_message(log_file_path,
              f"The {object_type} {name} already exists, cannot overwrite.")
          return ImportResult.EXISTS
      except Exception as e:
          write_log_message(log_file_path,
              f"Failed to import {object_type} {value}, error was: {e}")
          cache_object(retry_cache_path, value)
          return ImportResult.FAILED
  \<close>
  The result is \<open>Inl e\<close> when the exception \<open>e\<close> leaves the function, \<open>Inr (Some tag)\<close> when
  it returns a tag and \<open>Inr None\<close> when it reaches its end and returns \<^verbatim>\<open>None\<close>.
\<close>

definition import_value ::
  "pyenv \<Rightarrow> json \<Rightarrow> string \<Rightarrow> string \<Rightarrow> 'srv api \<Rightarrow> path \<Rightarrow> path \<Rightarrow> 'srv world
     \<Rightarrow> (exn + ImportResult option) \<times> 'srv world" where
  "import_value py v object_type name_key api log_file_path retry_cache_path w =
     (case dict_get v name_key of
        Inl e \<Rightarrow> (Inl e, w)
      | Inr name \<Rightarrow>
          if \<not> py_truthy name then
            (let w1 = w\<lparr>files := write_log_message log_file_path (log_name_missing py v) (files w)\<rparr>;
                 w2 = w1\<lparr>files := cache_object (json_dumps py) retry_cache_path v (files w1)\<rparr>
             in (Inr (Some SKIPPED), w2))
          else
            (let (r, srv) = api object_type v (server w);
                 w1 = w\<lparr>server := srv, calls := calls w @ [(object_type, v)]\<rparr>
             in case r of
                  Inr success \<Rightarrow>
                    if success then (Inr (Some LOADED), w1) else (Inr None, w1)
                | Inl e \<Rightarrow>
                    if cls e = KeycloakConflictError then
                      (Inr (Some EXISTS),
                       w1\<lparr>files := write_log_message log_file_path
                                      (log_exists py object_type name) (files w1)\<rparr>)
                    else if isinstance_Exception e then
                      (let w2 = w1\<lparr>files := write_log_message log_file_path
                                               (log_failed py object_type v e) (files w1)\<rparr>;
                           w3 = w2\<lparr>files := cache_object (json_dumps py) retry_cache_path v
                                               (files w2)\<rparr>
                       in (Inr (Some FAILED), w3))
                    else (Inl e, w1)))"

section \<open>The import pass\<close>

text \<open>
  \<^verbatim>\<open>process_map(loop_function, values, max_workers=8, chunksize=1)\<close> runs the function on a pool of
  worker processes and returns the list of results in the order of \<^verbatim>\<open>values\<close>; an exception
  that leaves a worker is raised again in the caller. The pool is modelled by the schedule that
  takes the records one after another in list order.
\<close>

fun process_map ::
  "('a \<Rightarrow> 'w \<Rightarrow> (exn + 'b) \<times> 'w) \<Rightarrow> 'a list \<Rightarrow> 'w \<Rightarrow> (exn + 'b list) \<times> 'w" where
  "process_map g [] w = (Inr [], w)"
| "process_map g (v # vs) w =
     (case g v w of
        (Inl e, w1) \<Rightarrow> (Inl e, w1)
      | (Inr r, w1) \<Rightarrow>
          (case process_map g vs w1 of
             (Inl e, w2) \<Rightarrow> (Inl e, w2)
           | (Inr rs, w2) \<Rightarrow> (Inr (r # rs), w2)))"

text \<open>
  \<^verbatim>\<open>
  report = {ImportResult.FAILED: 0, ImportResult.LOADED: 0,
            ImportResult.EXISTS: 0, ImportResult.SKIPPED: 0}
  for result in results:
      report[result] += 1
  \<close>
  The dict has the four tags as its keys: a result \<^verbatim>\<open>None\<close> raises \<^verbatim>\<open>KeyError\<close>.
\<close>

fun tally ::
  "(ImportResult \<Rightarrow> nat) \<Rightarrow> ImportResult option list \<Rightarrow> exn + (ImportResult \<Rightarrow> nat)" where
  "tally report [] = Inr report"
| "tally report (None # rs) = Inl (Exn KeyError ''None'')"
| "tally report (Some r # rs) = tally (report(r := report r + 1)) rs"

text \<open>The decimal digits of a number, as an f-string prints a count.\<close>

fun str_nat :: "nat \<Rightarrow> string" where
  "str_nat n =
     (if n < 10 then [char_of (48 + n)]
      else str_nat (n div 10) @ [char_of (48 + n mod 10)])"

definition summary_message :: "string \<Rightarrow> path \<Rightarrow> nat \<Rightarrow> (ImportResult \<Rightarrow> nat) \<Rightarrow> string" where
  "summary_message object_type retry_cache_path n report =
     (let failed_count = report FAILED;
          loaded_count = report LOADED;
          existing_count = report EXISTS;
          skipped_count = report SKIPPED;
          cached_for_retry_count = skipped_count + failed_count;
          m0 = ''Imported '' @ str_nat loaded_count @ '' out of '' @ str_nat n @ '' ''
                 @ object_type @ '' objects. There were '' @ str_nat failed_count
                 @ '' failures.'';
          m1 = (if skipped_count > 0 then
                  m0 @ [newline] @ str_nat skipped_count @ '' '' @ object_type
                    @ '' objects were skipped because their name field was missing or blank.''
                else m0);
          m2 = (if existing_count > 0 then
                  m1 @ [newline] @ str_nat existing_count @ '' '' @ object_type
                    @ '' objects were already in Keycloak and did not get overwritten.''
                else m1);
          m3 = (if cached_for_retry_count > 0 then
                  m2 @ [newline] @ ''Rerun with '' @ [apostrophe] @ ''-f '' @ retry_cache_path
                    @ [apostrophe] @ '' to retry '' @ str_nat cached_for_retry_count
                    @ '' skipped or failed objects.''
                else m2)
      in m3)"

text \<open>\<^verbatim>\<open>if os.path.exists(p): os.remove(p)\<close>\<close>

definition remove_if_exists :: "path \<Rightarrow> fs \<Rightarrow> fs" where
  "remove_if_exists p f = (if os_path_exists f p then f(p := None) else f)"

text \<open>
  \<^verbatim>\<open>
  def populate_keycloak(api, object_type, values, name_key):
      log_file_path = os.path.abspath(f"{object_type}_import.log")
      if os.path.exists(log_file_path):
          os.remove(log_file_path)
      retry_cache_path = os.path.abspath(f"{object_type}_retry_cache")
      if os.path.exists(retry_cache_path):
          os.remove(retry_cache_path)
      loop_function = partial(import_value, **loop_kwargs)
      results = process_map(loop_function, values, max_workers=8, chunksize=1)
      report = {...}
      for result in results:
          report[result] += 1
      ...
      print(message)
      write_log_message(log_file_path, message)
  \<close>
  What is printed on the console is not part of the state.
\<close>

definition populate_keycloak ::
  "pyenv \<Rightarrow> 'srv api \<Rightarrow> string \<Rightarrow> json list \<Rightarrow> string \<Rightarrow> 'srv world
     \<Rightarrow> (exn + unit) \<times> 'srv world" where
  "populate_keycloak py api object_type vals name_key w =
     (let log_file_path = abspath py (object_type @ ''_import.log'');
          f1 = remove_if_exists log_file_path (files w);
          retry_cache_path = abspath py (object_type @ ''_retry_cache'');
          f2 = remove_if_exists retry_cache_path f1;
          w1 = w\<lparr>files := f2\<rparr>
      in case process_map
                (\<lambda>v. import_value py v object_type name_key api log_file_path retry_cache_path)
                vals w1 of
           (Inl e, w2) \<Rightarrow> (Inl e, w2)
         | (Inr results, w2) \<Rightarrow>
             (case tally (\<lambda>_. 0) results of
                Inl e \<Rightarrow> (Inl e, w2)
              | Inr report \<Rightarrow>
                  (Inr (),
                   w2\<lparr>files := write_log_message log_file_path
                                  (summary_message object_type retry_cache_path (length vals) report)
                                  (files w2)\<rparr>)))"

section \<open>Group derivation\<close>

text \<open>
  \<^verbatim>\<open>
  groups = {}
  for user in users:
      for group in user["groups"]:
          groups[group] = {"name": group}
  groups = groups.values()
  \<close>
  \<^verbatim>\<open>user["groups"]\<close> raises \<^verbatim>\<open>KeyError\<close> on a dict without the key and \<^verbatim>\<open>TypeError\<close> on a value
  that is no dict. The \<^verbatim>\<open>for\<close> loop iterates over the elements of a list, the characters of a
  string and the keys of a dict, and raises \<^verbatim>\<open>TypeError\<close> on any other value. A list or a dict
  cannot be the key of a dict (\<^verbatim>\<open>TypeError\<close>); as keys, \<^verbatim>\<open>True\<close> is \<^verbatim>\<open>1\<close> and \<^verbatim>\<open>False\<close> is
  \<^verbatim>\<open>0\<close>; an assignment to a key the dict has keeps the key where it is and replaces its value.
\<close>

fun py_iter :: "json \<Rightarrow> exn + json list" where
  "py_iter (JArray xs) = Inr xs"
| "py_iter (JString s) = Inr (map (\<lambda>c. JString [c]) s)"
| "py_iter (JObject kvs) = Inr (map (\<lambda>kv. JString (fst kv)) kvs)"
| "py_iter v = Inl (Exn TypeError ''object is not iterable'')"

fun user_groups :: "json \<Rightarrow> exn + json list" where
  "user_groups (JObject kvs) =
     (case map_of kvs ''groups'' of
        None \<Rightarrow> Inl (Exn KeyError ''groups'')
      | Some g \<Rightarrow> py_iter g)"
| "user_groups v = Inl (Exn TypeError ''indices must be integers or object is not subscriptable'')"

fun py_hashable :: "json \<Rightarrow> bool" where
  "py_hashable (JArray xs) = False"
| "py_hashable (JObject kvs) = False"
| "py_hashable v = True"

fun py_key_eq :: "json \<Rightarrow> json \<Rightarrow> bool" where
  "py_key_eq (JBool b) (JInt i) = (i = (if b then 1 else 0))"
| "py_key_eq (JInt i) (JBool b) = (i = (if b then 1 else 0))"
| "py_key_eq a b = (a = b)"

fun dict_setitem :: "(json \<times> json) list \<Rightarrow> json \<Rightarrow> json \<Rightarrow> (json \<times> json) list" where
  "dict_setitem [] k v = [(k, v)]"
| "dict_setitem ((k', v') # d) k v =
     (if py_key_eq k' k then (k', v) # d else (k', v') # dict_setitem d k v)"

fun add_groups :: "(json \<times> json) list \<Rightarrow> json list \<Rightarrow> exn + (json \<times> json) list" where
  "add_groups groups [] = Inr groups"
| "add_groups groups (g # gs) =
     (if py_hashable g then add_groups (dict_setitem groups g (JObject [(''name'', g)])) gs
      else Inl (Exn TypeError ''unhashable type''))"

fun parse_groups :: "(json \<times> json) list \<Rightarrow> json list \<Rightarrow> exn + (json \<times> json) list" where
  "parse_groups groups [] = Inr groups"
| "parse_groups groups (user # users) =
     (case user_groups user of
        Inl e \<Rightarrow> Inl e
      | Inr gs \<Rightarrow>
          (case add_groups groups gs of
             Inl e \<Rightarrow> Inl e
           | Inr groups' \<Rightarrow> parse_groups groups' users))"

definition derive_groups :: "json list \<Rightarrow> exn + json list" where
  "derive_groups users =
     (case parse_groups [] users of
        Inl e \<Rightarrow> Inl e
      | Inr groups \<Rightarrow> Inr (map snd groups))"

section \<open>The run\<close>

text \<open>
  Discovery reads the rows of the database one after another and caches each; the database
  collaborator either delivers all its rows or fails after some of them:
  \<^verbatim>\<open>
  def discover(database_connection_data, user_model_class, cache_file_path):
      try:
          with Connection(**database_connection_data) as connection:
              database_users = connection.load_users(user_model_class)
              for user in database_users:
                  cache_object(cache_file_path, user.data)
      except ProgrammingError as e:
          LOG.error("Error connecting to the database: {}".format(str(e)))
          raise e
      except Exception as e:
          LOG.error(f"User discovery failed: {e}")
          raise e
  \<close>
\<close>

record database =
  rows :: "json list"
  failure :: "exn option"

definition discover :: "pyenv \<Rightarrow> database \<Rightarrow> path \<Rightarrow> fs \<Rightarrow> (exn + unit) \<times> fs" where
  "discover py db cache_file_path f =
     (let f1 = fold (cache_object (json_dumps py) cache_file_path) (rows db) f
      in case failure db of
           None \<Rightarrow> (Inr (), f1)
         | Some e \<Rightarrow> (Inl e, f1))"

text \<open>
  How a run ends: it reaches the end of \<^verbatim>\<open>main\<close>, it returns early after an error it handled,
  or an exception leaves \<^verbatim>\<open>main\<close>.
\<close>

datatype run_result = Completed | Aborted | Raised exn

text \<open>
  \<^verbatim>\<open>
  if not users:
      print("No users found.\nNothing to do.")
      return
  groups = {} ...
  try:
      with keycloak_api:
          import_objects = [("group", "name", groups), ("user", "username", users)]
          for object_type, name_key, values in import_objects:
              populate_keycloak(keycloak_api, object_type, values, name_key=name_key)
  except ConnectionError as e: ... return
  except KeycloakCommunicationError as e: ... return
  except KeycloakAuthenticationError as e: ... return
  \<close>
  The session \<^verbatim>\<open>with keycloak_api\<close> opens and closes belongs to the external session
  collaborator and is left out.
\<close>

definition import_handler :: "exn \<Rightarrow> run_result" where
  "import_handler e =
     (if cls e = ConnectionError \<or> cls e = KeycloakCommunicationError
           \<or> cls e = KeycloakAuthenticationError
      then Aborted else Raised e)"

definition main_import :: "pyenv \<Rightarrow> 'srv api \<Rightarrow> json list \<Rightarrow> 'srv world \<Rightarrow> run_result \<times> 'srv world" where
  "main_import py api users w =
     (if users = [] then (Aborted, w)
      else
        (case derive_groups users of
           Inl e \<Rightarrow> (Raised e, w)
         | Inr groups \<Rightarrow>
             (case populate_keycloak py api ''group'' groups ''name'' w of
                (Inl e, w1) \<Rightarrow> (import_handler e, w1)
              | (Inr _, w1) \<Rightarrow>
                  (case populate_keycloak py api ''user'' users ''username'' w1 of
                     (Inl e, w2) \<Rightarrow> (import_handler e, w2)
                   | (Inr _, w2) \<Rightarrow> (Completed, w2)))))"

definition main_load :: "pyenv \<Rightarrow> 'srv api \<Rightarrow> path \<Rightarrow> 'srv world \<Rightarrow> run_result \<times> 'srv world" where
  "main_load py api file_input w =
     (case read_records (json_loads py) file_input (files w) of
        Inl e \<Rightarrow> (if isinstance_Exception e then (Aborted, w) else (Raised e, w))
      | Inr users \<Rightarrow> main_import py api users w)"

text \<open>
  \<^verbatim>\<open>main\<close> from the discovery of the users on (the connection check before it is left out).
  \<open>file_input\<close> is the option \<^verbatim>\<open>-f\<close>; \<open>reuse_cache\<close> is the answer to the question whether to
  import from the cache that was found (\<^verbatim>\<open>y\<close> or \<^verbatim>\<open>n\<close>).
  \<^verbatim>\<open>
  cache_file_path = os.path.abspath("./user_cache")
  if file_input: ...
  elif not file_input and os.path.exists(cache_file_path):
      ...
      if response == "y":
          file_input = cache_file_path
  if not file_input:
      file_input = cache_file_path
      if os.path.exists(cache_file_path):
          os.remove(cache_file_path)
      try:
          discover(database_connection_data, user_model_class, cache_file_path)
      except Exception as e:
          print("Cleaning up failed cache")
          os.remove(cache_file_path)
          return
  \<close>
\<close>

definition given_input :: "path option \<Rightarrow> path option" where
  "given_input file_input =
     (case file_input of
        None \<Rightarrow> None
      | Some p \<Rightarrow> (if p = [] then None else Some p))"

definition rediscover :: "pyenv \<Rightarrow> database \<Rightarrow> path \<Rightarrow> fs \<Rightarrow> run_result option \<times> fs" where
  "rediscover py db cache_file_path f =
     (let f1 = remove_if_exists cache_file_path f
      in case discover py db cache_file_path f1 of
           (Inr _, f2) \<Rightarrow> (None, f2)
         | (Inl e, f2) \<Rightarrow>
             if isinstance_Exception e then
               (case os_remove cache_file_path f2 of
                  Inl e' \<Rightarrow> (Some (Raised e'), f2)
                | Inr f3 \<Rightarrow> (Some Aborted, f3))
             else (Some (Raised e), f2))"

definition main ::
  "pyenv \<Rightarrow> 'srv api \<Rightarrow> database \<Rightarrow> path option \<Rightarrow> bool \<Rightarrow> 'srv world
     \<Rightarrow> run_result \<times> 'srv world" where
  "main py api db file_input reuse_cache w =
     (let cache_file_path = abspath py ''user_cache'';
          file_input1 =
            (case given_input file_input of
               Some p \<Rightarrow> Some p
             | None \<Rightarrow>
                 (if os_path_exists (files w) cache_file_path \<and> reuse_cache
                  then Some cache_file_path else None))
      in case file_input1 of
           Some p \<Rightarrow> main_load py api p w
         | None \<Rightarrow>
             (case rediscover py db cache_file_path (files w) of
                (Some r, f1) \<Rightarrow> (r, w\<lparr>files := f1\<rparr>)
              | (None, f1) \<Rightarrow> main_load py api cache_file_path (w\<lparr>files := f1\<rparr>)))"

section \<open>Vocabulary of the properties\<close>

text \<open>The text of a file; the empty text for a file that does not exist.\<close>

definition file_text :: "fs \<Rightarrow> path \<Rightarrow> string" where
  "file_text f p = (case f p of None \<Rightarrow> [] | Some c \<Rightarrow> c)"

text \<open>
  A record lacks its name: it is a dict and the name field is absent, \<^verbatim>\<open>null\<close> or empty.
\<close>

definition name_absent_or_empty :: "json \<Rightarrow> string \<Rightarrow> bool" where
  "name_absent_or_empty v name_key =
     (case v of
        JObject kvs \<Rightarrow>
          (case map_of kvs name_key of
             None \<Rightarrow> True
           | Some n \<Rightarrow> n = JNull \<or> n = JString [] \<or> n = JArray [] \<or> n = JObject [])
      | _ \<Rightarrow> False)"

text \<open>
  A record is serializable by a pair of \<open>dumps\<close> and \<open>loads\<close>: its serialization is one
  non-empty line, and \<open>loads\<close> gives the record back from that line, with or without the
  newline that ends it. \<^verbatim>\<open>json.dumps\<close> and \<^verbatim>\<open>json.loads\<close> are such a pair on JSON values.
\<close>

definition serializable :: "('r \<Rightarrow> string) \<Rightarrow> (string \<Rightarrow> exn + 'r) \<Rightarrow> 'r \<Rightarrow> bool" where
  "serializable dumps loads r =
     (dumps r \<noteq> [] \<and> newline \<notin> set (dumps r) \<and> carriage_return \<notin> set (dumps r)
      \<and> loads (dumps r) = Inr r \<and> loads (dumps r @ [newline]) = Inr r)"

text \<open>
  A well-formed user record is a dict whose \<^verbatim>\<open>"groups"\<close> field is a list of strings, the group
  names of the user.
\<close>

fun is_JString :: "json \<Rightarrow> bool" where
  "is_JString (JString s) = True"
| "is_JString v = False"

fun string_of :: "json \<Rightarrow> string" where
  "string_of (JString s) = s"
| "string_of v = []"

definition well_formed_user :: "json \<Rightarrow> bool" where
  "well_formed_user user =
     (case user of
        JObject kvs \<Rightarrow>
          (case map_of kvs ''groups'' of
             Some (JArray gs) \<Rightarrow> list_all is_JString gs
           | _ \<Rightarrow> False)
      | _ \<Rightarrow> False)"

definition group_names :: "json \<Rightarrow> string list" where
  "group_names user =
     (case user of
        JObject kvs \<Rightarrow>
          (case map_of kvs ''groups'' of
             Some (JArray gs) \<Rightarrow> map string_of gs
           | _ \<Rightarrow> [])
      | _ \<Rightarrow> [])"

definition group_record :: "string \<Rightarrow> json" where
  "group_record g = JObject [(''name'', JString g)]"

section \<open>Sample inputs\<close>

text \<open>
  A serializer in the format of \<^verbatim>\<open>json.dumps\<close>, and a decoder that finds the record a line
  serializes among given records.
\<close>

definition json_escape :: "char \<Rightarrow> string" where
  "json_escape c =
     (if c = CHR 0x22 then [CHR 0x5C, CHR 0x22]
      else if c = CHR 0x5C then [CHR 0x5C, CHR 0x5C]
      else if c = newline then [CHR 0x5C, CHR ''n'']
      else if c = carriage_return then [CHR 0x5C, CHR ''r'']
      else [c])"

definition json_quote :: "string \<Rightarrow> string" where
  "json_quote s = CHR 0x22 # concat (map json_escape s) @ [CHR 0x22]"

fun join :: "string \<Rightarrow> string list \<Rightarrow> string" where
  "join sep [] = []"
| "join sep [x] = x"
| "join sep (x # y # ys) = x @ sep @ join sep (y # ys)"

definition str_int :: "int \<Rightarrow> string" where
  "str_int i = (if i < 0 then CHR ''-'' # str_nat (nat (- i)) else str_nat (nat i))"

fun dumps_sample :: "json \<Rightarrow> string" where
  "dumps_sample JNull = ''null''"
| "dumps_sample (JBool b) = (if b then ''true'' else ''false'')"
| "dumps_sample (JInt i) = str_int i"
| "dumps_sample (JString s) = json_quote s"
| "dumps_sample (JArray xs) = ''['' @ join '', '' (map dumps_sample xs) @ '']''"
| "dumps_sample (JObject kvs) =
     ''{'' @ join '', '' (map (\<lambda>(k, v). json_quote k @ '': '' @ dumps_sample v) kvs) @ ''}''"

definition loads_among :: "json list \<Rightarrow> string \<Rightarrow> exn + json" where
  "loads_among known line =
     (case find (\<lambda>r. line = dumps_sample r \<or> line = dumps_sample r @ [newline]) known of
        None \<Rightarrow> Inl (Exn JSONDecodeError line)
      | Some r \<Rightarrow> Inr r)"

definition str_sample :: "json \<Rightarrow> string" where
  "str_sample v = (case v of JString s \<Rightarrow> s | _ \<Rightarrow> dumps_sample v)"

text \<open>The users of the spec's scenarios.\<close>

definition user_a :: json where
  "user_a = JObject [(''username'', JString ''a''), (''groups'', JArray [JString ''g1''])]"

definition user_b :: json where
  "user_b = JObject [(''username'', JString ''b''),
                     (''groups'', JArray [JString ''g1'', JString ''g2''])]"

definition user_nameless :: json where
  "user_nameless = JObject [(''groups'', JArray [JString ''g1''])]"

definition user_groupless :: json where
  "user_groupless = JObject [(''username'', JString ''c'')]"

definition py_sample :: pyenv where
  "py_sample = \<lparr>json_dumps = dumps_sample,
                 json_loads = loads_among [user_a, user_b, user_nameless, user_groupless],
                 py_str = str_sample,
                 cwd = ''/srv/migrate''\<rparr>"

text \<open>A server that counts the requests it gets and answers each the same way.\<close>

definition api_raising :: "exn \<Rightarrow> nat api" where
  "api_raising e object_type v n = (Inl e, Suc n)"

definition api_returning :: "bool \<Rightarrow> nat api" where
  "api_returning b object_type v n = (Inr b, Suc n)"

definition world0 :: "nat world" where
  "world0 = \<lparr>files = Map.empty, server = 0, calls = []\<rparr>"

section \<open>Facts about the file operations\<close>

lemma cache_object_eq:
  "cache_object dumps p r f =
     f(p \<mapsto> file_text f p @ (if os_path_exists f p then [newline] else []) @ dumps r)"
  by (auto simp: cache_object_def os_path_exists_def open_append_def file_write_def Let_def
                 file_text_def split: option.splits)

lemma write_log_message_eq:
  "write_log_message p m f = f(p \<mapsto> file_text f p @ m @ [newline])"
  by (auto simp: write_log_message_def open_append_def file_write_def file_text_def
           split: option.splits)

section \<open>The per-record import procedure: the branches\<close>

lemma import_value_falsy:
  assumes "dict_get v name_key = Inr name" and "\<not> py_truthy name"
  shows "import_value py v object_type name_key api log_file_path retry_cache_path w =
           (Inr (Some SKIPPED),
            w\<lparr>files := cache_object (json_dumps py) retry_cache_path v
                        (write_log_message log_file_path (log_name_missing py v) (files w))\<rparr>)"
  using assms by (simp add: import_value_def Let_def)

lemma import_value_caught:
  assumes "dict_get v name_key = Inr name" and "py_truthy name"
    and "api object_type v (server w) = (Inl e, srv)"
    and "cls e \<noteq> KeycloakConflictError" and "isinstance_Exception e"
  shows "import_value py v object_type name_key api log_file_path retry_cache_path w =
           (Inr (Some FAILED),
            w\<lparr>server := srv, calls := calls w @ [(object_type, v)],
              files := cache_object (json_dumps py) retry_cache_path v
                        (write_log_message log_file_path (log_failed py object_type v e) (files w))\<rparr>)"
  using assms by (simp add: import_value_def Let_def)

lemma import_value_conflict:
  assumes "dict_get v name_key = Inr name" and "py_truthy name"
    and "api object_type v (server w) = (Inl e, srv)"
    and "cls e = KeycloakConflictError"
  shows "import_value py v object_type name_key api log_file_path retry_cache_path w =
           (Inr (Some EXISTS),
            w\<lparr>server := srv, calls := calls w @ [(object_type, v)],
              files := write_log_message log_file_path (log_exists py object_type name) (files w)\<rparr>)"
  using assms by (simp add: import_value_def Let_def)

lemma name_absent_or_empty_falsy:
  assumes "name_absent_or_empty v name_key"
  shows "\<exists>name. dict_get v name_key = Inr name \<and> \<not> py_truthy name"
  using assms
  by (cases v) (auto simp: name_absent_or_empty_def split: option.splits)

text \<open>
  Claim C3. For every record whose value at the name-field key is absent or empty, the
  per-record import procedure returns \<open>SKIPPED\<close>, writes a log line (the log file gets the
  line ``Name field missing from ..., skipping''), writes the record to the retry cache (the
  cache gets the serialized record, after a newline when the file exists) and makes no call to
  the Remote API Client: the list of calls and the server are as before. The log and the retry
  cache are two files, as in \<open>populate_keycloak\<close>.
\<close>

theorem import_value_skips_missing_name:
  assumes "name_absent_or_empty v name_key"
    and "log_file_path \<noteq> retry_cache_path"
  shows "\<exists>w'. import_value py v object_type name_key api log_file_path retry_cache_path w
                  = (Inr (Some SKIPPED), w')
            \<and> files w' = (files w)
                 (log_file_path \<mapsto>
                    file_text (files w) log_file_path @ log_name_missing py v @ [newline],
                  retry_cache_path \<mapsto>
                    file_text (files w) retry_cache_path
                      @ (if os_path_exists (files w) retry_cache_path then [newline] else [])
                      @ json_dumps py v)
            \<and> calls w' = calls w \<and> server w' = server w"
proof -
  from assms(1) obtain name where "dict_get v name_key = Inr name" and "\<not> py_truthy name"
    using name_absent_or_empty_falsy by blast
  then show ?thesis
    using assms(2)
    by (simp add: import_value_falsy cache_object_eq write_log_message_eq file_text_def
                  os_path_exists_def)
qed

theorem import_value_skips_missing_name_witness:
  "name_absent_or_empty user_nameless ''username''
   \<and> ''/srv/migrate/user_import.log'' \<noteq> ''/srv/migrate/user_retry_cache''
   \<and> (\<exists>w'. import_value py_sample user_nameless ''user'' ''username'' (api_returning True)
                ''/srv/migrate/user_import.log'' ''/srv/migrate/user_retry_cache'' world0
                = (Inr (Some SKIPPED), w')
          \<and> files w' ''/srv/migrate/user_retry_cache'' = Some (dumps_sample user_nameless)
          \<and> calls w' = [] \<and> server w' = 0)"
proof -
  have h1: "name_absent_or_empty user_nameless ''username''"
    by (simp add: name_absent_or_empty_def user_nameless_def)
  have h2: "''/srv/migrate/user_import.log'' \<noteq> ''/srv/migrate/user_retry_cache''"
    by simp
  show ?thesis
    using h1 h2
      import_value_skips_missing_name [OF h1 h2, of py_sample "''user''" "api_returning True" world0]
    by (auto simp: world0_def py_sample_def file_text_def os_path_exists_def)
qed

text \<open>
  Claim C4. For every record for which the Remote API Client raises a Conflict condition, the
  per-record import procedure returns \<open>EXISTS\<close> and the record is not written to the retry
  cache: the retry cache file is as before, and the only file that changes is the log, which
  gets the line ``The ... already exists, cannot overwrite.''
\<close>

theorem import_value_conflict_exists:
  assumes "dict_get v name_key = Inr name" and "py_truthy name"
    and "api object_type v (server w) = (Inl e, srv)"
    and "cls e = KeycloakConflictError"
    and "log_file_path \<noteq> retry_cache_path"
  shows "\<exists>w'. import_value py v object_type name_key api log_file_path retry_cache_path w
                  = (Inr (Some EXISTS), w')
            \<and> files w' retry_cache_path = files w retry_cache_path
            \<and> files w' = (files w)
                 (log_file_path \<mapsto>
                    file_text (files w) log_file_path @ log_exists py object_type name @ [newline])
            \<and> calls w' = calls w @ [(object_type, v)]"
  using assms by (simp add: import_value_conflict write_log_message_eq)

theorem import_value_conflict_exists_witness:
  "dict_get user_a ''username'' = Inr (JString ''a'') \<and> py_truthy (JString ''a'')
   \<and> api_raising (Exn KeycloakConflictError ''409'') ''user'' user_a (server world0)
       = (Inl (Exn KeycloakConflictError ''409''), 1)
   \<and> cls (Exn KeycloakConflictError ''409'') = KeycloakConflictError
   \<and> ''/srv/migrate/user_import.log'' \<noteq> ''/srv/migrate/user_retry_cache''
   \<and> (\<exists>w'. import_value py_sample user_a ''user'' ''username''
                (api_raising (Exn KeycloakConflictError ''409''))
                ''/srv/migrate/user_import.log'' ''/srv/migrate/user_retry_cache'' world0
                = (Inr (Some EXISTS), w')
          \<and> files w' ''/srv/migrate/user_retry_cache'' = None
          \<and> files w' ''/srv/migrate/user_import.log''
              = Some ''The user a already exists, cannot overwrite.\<newline>''
          \<and> calls w' = [(''user'', user_a)])"
proof -
  have h1: "dict_get user_a ''username'' = Inr (JString ''a'')"
    by (simp add: user_a_def)
  have h2: "py_truthy (JString ''a'')"
    by simp
  have h3: "api_raising (Exn KeycloakConflictError ''409'') ''user'' user_a (server world0)
              = (Inl (Exn KeycloakConflictError ''409''), 1)"
    by (simp add: api_raising_def world0_def)
  have h4: "cls (Exn KeycloakConflictError ''409'') = KeycloakConflictError"
    by simp
  have h5: "''/srv/migrate/user_import.log'' \<noteq> ''/srv/migrate/user_retry_cache''"
    by simp
  show ?thesis
    using h1 h2 h3 h4 h5
      import_value_conflict_exists [where api = "api_raising (Exn KeycloakConflictError ''409'')"
        and py = py_sample and w = world0, OF h1 h2 h3 h4 h5]
    by (auto simp: world0_def py_sample_def file_text_def log_exists_def str_sample_def)
qed

text \<open>
  Claim C5. For every record for which the Remote API Client raises an error that is neither a
  Conflict nor an Authentication condition (an exception of a class derived from
  \<^verbatim>\<open>Exception\<close>), the per-record import procedure returns \<open>FAILED\<close> and the record is appended
  to the retry cache exactly once: the retry cache afterwards is its text before, a newline when
  the file existed, and the serialized record. The log gets the line ``Failed to import ...''.
\<close>

theorem import_value_error_failed:
  assumes "dict_get v name_key = Inr name" and "py_truthy name"
    and "api object_type v (server w) = (Inl e, srv)"
    and "cls e \<noteq> KeycloakConflictError" and "cls e \<noteq> KeycloakAuthenticationError"
    and "isinstance_Exception e"
    and "log_file_path \<noteq> retry_cache_path"
  shows "\<exists>w'. import_value py v object_type name_key api log_file_path retry_cache_path w
                  = (Inr (Some FAILED), w')
            \<and> files w' retry_cache_path =
                 Some (file_text (files w) retry_cache_path
                        @ (if os_path_exists (files w) retry_cache_path then [newline] else [])
                        @ json_dumps py v)
            \<and> files w' log_file_path =
                 Some (file_text (files w) log_file_path @ log_failed py object_type v e
                        @ [newline])
            \<and> calls w' = calls w @ [(object_type, v)]"
  using assms
  by (simp add: import_value_caught cache_object_eq write_log_message_eq file_text_def
                os_path_exists_def)

theorem import_value_error_failed_witness:
  "dict_get user_a ''username'' = Inr (JString ''a'') \<and> py_truthy (JString ''a'')
   \<and> api_raising (Exn KeycloakCommunicationError ''500'') ''user'' user_a (server world0)
       = (Inl (Exn KeycloakCommunicationError ''500''), 1)
   \<and> cls (Exn KeycloakCommunicationError ''500'') \<noteq> KeycloakConflictError
   \<and> cls (Exn KeycloakCommunicationError ''500'') \<noteq> KeycloakAuthenticationError
   \<and> isinstance_Exception (Exn KeycloakCommunicationError ''500'')
   \<and> ''/srv/migrate/user_import.log'' \<noteq> ''/srv/migrate/user_retry_cache''
   \<and> (\<exists>w'. import_value py_sample user_a ''user'' ''username''
                (api_raising (Exn KeycloakCommunicationError ''500''))
                ''/srv/migrate/user_import.log'' ''/srv/migrate/user_retry_cache'' world0
                = (Inr (Some FAILED), w')
          \<and> files w' ''/srv/migrate/user_retry_cache'' = Some (dumps_sample user_a)
          \<and> calls w' = [(''user'', user_a)])"
proof -
  have h1: "dict_get user_a ''username'' = Inr (JString ''a'')"
    by (simp add: user_a_def)
  have h2: "py_truthy (JString ''a'')"
    by simp
  have h3: "api_raising (Exn KeycloakCommunicationError ''500'') ''user'' user_a (server world0)
              = (Inl (Exn KeycloakCommunicationError ''500''), 1)"
    by (simp add: api_raising_def world0_def)
  have h4: "cls (Exn KeycloakCommunicationError ''500'') \<noteq> KeycloakConflictError"
    by simp
  have h5: "cls (Exn KeycloakCommunicationError ''500'') \<noteq> KeycloakAuthenticationError"
    by simp
  have h6: "isinstance_Exception (Exn KeycloakCommunicationError ''500'')"
    by (simp add: isinstance_Exception_def)
  have h7: "''/srv/migrate/user_import.log'' \<noteq> ''/srv/migrate/user_retry_cache''"
    by simp
  show ?thesis
    using h1 h2 h3 h4 h5 h6 h7
      import_value_error_failed [where api = "api_raising (Exn KeycloakCommunicationError ''500'')"
        and py = py_sample and w = world0, OF h1 h2 h3 h4 h5 h6 h7]
    by (auto simp: world0_def py_sample_def file_text_def os_path_exists_def)
qed

text \<open>
  Claim C1 says that an Authentication condition raised by the Remote API Client leaves the
  per-record import procedure. It does not: \<^verbatim>\<open>except Exception\<close> catches it. For the user
  \<^verbatim>\<open>{"username": "a", "groups": ["g1"]}\<close> and a client that raises
  \<^verbatim>\<open>KeycloakAuthenticationError\<close>, the procedure returns \<open>FAILED\<close>.
\<close>

theorem authentication_error_counterexample:
  "fst (import_value py_sample user_a ''user'' ''username''
          (api_raising (Exn KeycloakAuthenticationError ''401''))
          ''/srv/migrate/user_import.log'' ''/srv/migrate/user_retry_cache'' world0)
     = Inr (Some FAILED)
   \<and> fst (import_value py_sample user_a ''user'' ''username''
          (api_raising (Exn KeycloakAuthenticationError ''401''))
          ''/srv/migrate/user_import.log'' ''/srv/migrate/user_retry_cache'' world0)
     \<noteq> Inl (Exn KeycloakAuthenticationError ''401'')"
  by (simp add: import_value_def user_a_def api_raising_def world0_def isinstance_Exception_def
                Let_def)

text \<open>A batch whose first records all return continues with the records after them.\<close>

lemma process_map_append:
  assumes "process_map g pre w0 = (Inr rs0, w)"
  shows "process_map g (pre @ xs) w0 =
           (case process_map g xs w of
              (Inl e, w2) \<Rightarrow> (Inl e, w2)
            | (Inr rs, w2) \<Rightarrow> (Inr (rs0 @ rs), w2))"
  using assms
proof (induction pre arbitrary: w0 rs0)
  case Nil
  then show ?case by (simp split: prod.splits sum.splits)
next
  case (Cons x pre)
  from Cons.prems obtain r w1 rs1 where
    x: "g x w0 = (Inr r, w1)" and pre: "process_map g pre w1 = (Inr rs1, w)"
    and rs0: "rs0 = r # rs1"
    by (auto split: prod.splits sum.splits)
  from Cons.IH [OF pre] show ?case
    using x rs0 by (simp split: prod.splits sum.splits)
qed

text \<open>
  Claim C1, amended. If the Remote API Client call for a record raises an Authentication
  condition, the per-record import procedure catches it as it catches every error that is not
  a Conflict: it writes the line ``Failed to import ...'' to the log, appends the record to the
  retry cache and returns \<open>FAILED\<close>; the condition does not leave the worker. Nothing aborts the
  batch: wherever the record stands in it, the records after it are attempted from the state it
  leaves, and the result list of the batch is the results of the records before it, this
  \<open>FAILED\<close>, and the results of the records after it.
\<close>

theorem authentication_error_failed_batch_goes_on:
  assumes "dict_get v name_key = Inr name" and "py_truthy name"
    and "api object_type v (server w) = (Inl e, srv)"
    and "cls e = KeycloakAuthenticationError"
    and "log_file_path \<noteq> retry_cache_path"
  shows "\<exists>w'. import_value py v object_type name_key api log_file_path retry_cache_path w
                  = (Inr (Some FAILED), w')
            \<and> files w' retry_cache_path =
                 Some (file_text (files w) retry_cache_path
                        @ (if os_path_exists (files w) retry_cache_path then [newline] else [])
                        @ json_dumps py v)
            \<and> files w' log_file_path =
                 Some (file_text (files w) log_file_path @ log_failed py object_type v e
                        @ [newline])
            \<and> calls w' = calls w @ [(object_type, v)]
            \<and> (\<forall>before rs0 w0 after rs w2.
                  process_map
                    (\<lambda>x. import_value py x object_type name_key api log_file_path retry_cache_path)
                    before w0 = (Inr rs0, w)
                  \<and> process_map
                    (\<lambda>x. import_value py x object_type name_key api log_file_path retry_cache_path)
                    after w' = (Inr rs, w2)
                  \<longrightarrow> process_map
                    (\<lambda>x. import_value py x object_type name_key api log_file_path retry_cache_path)
                    (before @ v # after) w0 = (Inr (rs0 @ Some FAILED # rs), w2))"
proof -
  let ?g = "\<lambda>x. import_value py x object_type name_key api log_file_path retry_cache_path"
  from assms(4) have "cls e \<noteq> KeycloakConflictError" and "isinstance_Exception e"
    by (simp_all add: isinstance_Exception_def)
  with assms obtain w' where
    one: "?g v w = (Inr (Some FAILED), w')"
    and retry: "files w' retry_cache_path =
                 Some (file_text (files w) retry_cache_path
                        @ (if os_path_exists (files w) retry_cache_path then [newline] else [])
                        @ json_dumps py v)"
    and log: "files w' log_file_path =
                 Some (file_text (files w) log_file_path @ log_failed py object_type v e
                        @ [newline])"
    and called: "calls w' = calls w @ [(object_type, v)]"
    by (simp add: import_value_caught cache_object_eq write_log_message_eq file_text_def
                  os_path_exists_def)
  have "process_map ?g (before @ v # after) w0 = (Inr (rs0 @ Some FAILED # rs), w2)"
    if "process_map ?g before w0 = (Inr rs0, w)" and "process_map ?g after w' = (Inr rs, w2)"
    for before rs0 w0 after rs w2
    using process_map_append [OF that(1), of "v # after"] that(2) one by simp
  with one retry log called show ?thesis
    by blast
qed

theorem authentication_error_failed_batch_goes_on_witness:
  "dict_get user_a ''username'' = Inr (JString ''a'') \<and> py_truthy (JString ''a'')
   \<and> api_raising (Exn KeycloakAuthenticationError ''401'') ''user'' user_a (server world0)
       = (Inl (Exn KeycloakAuthenticationError ''401''), 1)
   \<and> cls (Exn KeycloakAuthenticationError ''401'') = KeycloakAuthenticationError
   \<and> ''/srv/migrate/user_import.log'' \<noteq> ''/srv/migrate/user_retry_cache''
   \<and> fst (import_value py_sample user_a ''user'' ''username''
              (api_raising (Exn KeycloakAuthenticationError ''401''))
              ''/srv/migrate/user_import.log'' ''/srv/migrate/user_retry_cache'' world0)
       = Inr (Some FAILED)
   \<and> fst (process_map
              (\<lambda>x. import_value py_sample x ''user'' ''username''
                     (api_raising (Exn KeycloakAuthenticationError ''401''))
                     ''/srv/migrate/user_import.log'' ''/srv/migrate/user_retry_cache'')
              [user_a, user_b] world0)
       = Inr [Some FAILED, Some FAILED]
   \<and> calls (snd (process_map
              (\<lambda>x. import_value py_sample x ''user'' ''username''
                     (api_raising (Exn KeycloakAuthenticationError ''401''))
                     ''/srv/migrate/user_import.log'' ''/srv/migrate/user_retry_cache'')
              [user_a, user_b] world0))
       = [(''user'', user_a), (''user'', user_b)]"
proof -
  let ?api = "api_raising (Exn KeycloakAuthenticationError ''401'')"
  let ?g = "\<lambda>x. import_value py_sample x ''user'' ''username'' ?api
                  ''/srv/migrate/user_import.log'' ''/srv/migrate/user_retry_cache''"
  have h1: "dict_get user_a ''username'' = Inr (JString ''a'')"
    by (simp add: user_a_def)
  have h2: "py_truthy (JString ''a'')"
    by simp
  have h3: "?api ''user'' user_a (server world0) = (Inl (Exn KeycloakAuthenticationError ''401''), 1)"
    by (simp add: api_raising_def world0_def)
  have h4: "cls (Exn KeycloakAuthenticationError ''401'') = KeycloakAuthenticationError"
    by simp
  have h5: "''/srv/migrate/user_import.log'' \<noteq> ''/srv/migrate/user_retry_cache''"
    by simp
  from authentication_error_failed_batch_goes_on
         [where api = ?api and py = py_sample and w = world0, OF h1 h2 h3 h4 h5]
  obtain w' where
    first: "?g user_a world0 = (Inr (Some FAILED), w')"
    and called: "calls w' = calls world0 @ [(''user'', user_a)]"
    and goes_on: "\<And>before rs0 w0 after rs w2.
                   process_map ?g before w0 = (Inr rs0, world0)
                   \<and> process_map ?g after w' = (Inr rs, w2)
                   \<Longrightarrow> process_map ?g (before @ user_a # after) w0
                         = (Inr (rs0 @ Some FAILED # rs), w2)"
    by blast
  have "\<exists>w2. ?g user_b w' = (Inr (Some FAILED), w2)
           \<and> calls w2 = calls w' @ [(''user'', user_b)]"
    by (simp add: import_value_def user_b_def api_raising_def isinstance_Exception_def Let_def)
  then obtain w2 where
    second: "?g user_b w' = (Inr (Some FAILED), w2)"
    and called2: "calls w2 = calls w' @ [(''user'', user_b)]"
    by blast
  have "process_map ?g [user_b] w' = (Inr [Some FAILED], w2)"
    by (simp add: second)
  with goes_on [where before = "[]" and ?rs0.0 = "[]" and ?w0.0 = world0 and after = "[user_b]"
                  and rs = "[Some FAILED]" and ?w2.0 = w2]
  have "process_map ?g [user_a, user_b] world0 = (Inr [Some FAILED, Some FAILED], w2)"
    by simp
  then show ?thesis
    using h1 h2 h3 h4 h5 first called called2 by (simp add: world0_def)
qed

text \<open>
  So a client that rejects every call with an Authentication condition gets one call for each
  record of the batch; the import pass marks every record \<open>FAILED\<close> and ends with its summary.
\<close>

lemma process_map_all_rejected:
  assumes "\<forall>v \<in> set vals. \<exists>name. dict_get v name_key = Inr name \<and> py_truthy name"
    and "\<forall>v s. \<exists>e srv. api object_type v s = (Inl e, srv) \<and> cls e = KeycloakAuthenticationError"
  shows "\<exists>w'. process_map
                 (\<lambda>x. import_value py x object_type name_key api log_file_path retry_cache_path)
                 vals w = (Inr (map (\<lambda>_. Some FAILED) vals), w')
            \<and> calls w' = calls w @ map (Pair object_type) vals"
  using assms(1)
proof (induction vals arbitrary: w)
  case Nil
  then show ?case by simp
next
  case (Cons v vals)
  from Cons.prems obtain name where n: "dict_get v name_key = Inr name" "py_truthy name"
    by auto
  from assms(2) obtain e srv where
    a: "api object_type v (server w) = (Inl e, srv)" and c: "cls e = KeycloakAuthenticationError"
    by blast
  from c have c': "cls e \<noteq> KeycloakConflictError" "isinstance_Exception e"
    by (simp_all add: isinstance_Exception_def)
  let ?w1 = "w\<lparr>server := srv, calls := calls w @ [(object_type, v)],
              files := cache_object (json_dumps py) retry_cache_path v
                        (write_log_message log_file_path (log_failed py object_type v e) (files w))\<rparr>"
  have step: "import_value py v object_type name_key api log_file_path retry_cache_path w
                = (Inr (Some FAILED), ?w1)"
    using n a c' by (rule import_value_caught)
  from Cons.prems have "\<forall>v \<in> set vals. \<exists>name. dict_get v name_key = Inr name \<and> py_truthy name"
    by simp
  from Cons.IH [OF this, of ?w1] obtain w' where
    "process_map
       (\<lambda>x. import_value py x object_type name_key api log_file_path retry_cache_path)
       vals ?w1 = (Inr (map (\<lambda>_. Some FAILED) vals), w')"
    and "calls w' = calls ?w1 @ map (Pair object_type) vals"
    by blast
  then show ?case
    using step by simp
qed

lemma tally_all_tagged: "\<exists>report'. tally report (map (\<lambda>_. Some r) vals) = Inr report'"
  by (induction vals arbitrary: report) simp_all

lemma populate_keycloak_all_rejected:
  assumes "\<forall>v \<in> set vals. \<exists>name. dict_get v name_key = Inr name \<and> py_truthy name"
    and "\<forall>v s. \<exists>e srv. api object_type v s = (Inl e, srv) \<and> cls e = KeycloakAuthenticationError"
  shows "\<exists>w'. populate_keycloak py api object_type vals name_key w = (Inr (), w')
            \<and> calls w' = calls w @ map (Pair object_type) vals"
proof -
  let ?log = "abspath py (object_type @ ''_import.log'')"
  let ?retry = "abspath py (object_type @ ''_retry_cache'')"
  let ?w1 = "w\<lparr>files := remove_if_exists ?retry (remove_if_exists ?log (files w))\<rparr>"
  from assms process_map_all_rejected
         [where api = api and py = py and log_file_path = ?log and retry_cache_path = ?retry
            and w = ?w1 and vals = vals and name_key = name_key and object_type = object_type]
  obtain w2 where
    p: "process_map (\<lambda>x. import_value py x object_type name_key api ?log ?retry) vals ?w1
          = (Inr (map (\<lambda>_. Some FAILED) vals), w2)"
    and c: "calls w2 = calls ?w1 @ map (Pair object_type) vals"
    by blast
  from tally_all_tagged [of "\<lambda>_. 0" FAILED vals] obtain report where
    t: "tally (\<lambda>_. 0) (map (\<lambda>_. Some FAILED) vals) = Inr report"
    by blast
  show ?thesis
    using p c t by (simp add: populate_keycloak_def Let_def)
qed

text \<open>
  Claim C2 says that the per-record import procedure returns one of the four tags for every
  record and every response of the Remote API Client. When \<^verbatim>\<open>api.post\<close> returns a false value
  without raising, the procedure reaches its end and returns \<^verbatim>\<open>None\<close>: here for the user
  \<^verbatim>\<open>{"username": "a", "groups": ["g1"]}\<close>. The tally of \<open>populate_keycloak\<close> then raises
  \<^verbatim>\<open>KeyError\<close>.
\<close>

theorem import_value_returns_no_tag:
  "import_value py_sample user_a ''user'' ''username'' (api_returning False)
     ''/srv/migrate/user_import.log'' ''/srv/migrate/user_retry_cache'' world0
   = (Inr None, world0\<lparr>server := 1, calls := [(''user'', user_a)]\<rparr>)"
  by (simp add: import_value_def user_a_def api_returning_def world0_def Let_def)

lemma populate_keycloak_no_tag:
  "fst (populate_keycloak py_sample (api_returning False) ''user'' [user_a] ''username'' world0)
   = Inl (Exn KeyError ''None'')"
  by (simp add: populate_keycloak_def import_value_def user_a_def api_returning_def world0_def
                Let_def remove_if_exists_def os_path_exists_def)

section \<open>The Record Store\<close>

subsection \<open>Lines of a text\<close>

lemma universal_newlines_id:
  "carriage_return \<notin> set s \<Longrightarrow> universal_newlines s = s"
  by (induction s rule: universal_newlines.induct) auto

lemma file_lines_single:
  "s \<noteq> [] \<Longrightarrow> newline \<notin> set s \<Longrightarrow> file_lines s = [s]"
proof (induction s)
  case Nil
  then show ?case by simp
next
  case (Cons c s)
  then show ?case by (cases s) auto
qed

lemma file_lines_first:
  "newline \<notin> set l \<Longrightarrow> file_lines (l @ newline # rest) = (l @ [newline]) # file_lines rest"
  by (induction l) auto

lemma file_lines_empty: "file_lines s = [] \<longleftrightarrow> s = []"
  by (cases s) (auto split: list.splits)

lemma file_lines_after_newline:
  "file_lines (a @ newline # b) = file_lines (a @ [newline]) @ file_lines b"
proof (induction a)
  case Nil
  then show ?case by simp
next
  case (Cons c a)
  have "file_lines (a @ [newline]) \<noteq> []"
    by (simp add: file_lines_empty)
  then obtain l ls where "file_lines (a @ [newline]) = l # ls"
    by (cases "file_lines (a @ [newline])") auto
  with Cons show ?case by simp
qed

subsection \<open>Appending a record\<close>

text \<open>
  Claim C6 says that the append operation inserts the newline separator if and only if the
  file already has content. The code asks whether the file exists: appending to a file that
  exists and is empty writes a newline first, so the file starts with a blank line.
\<close>

theorem empty_file_counterexample:
  "cache_object dumps_sample ''user_cache'' user_a [''user_cache'' \<mapsto> []] ''user_cache''
     = Some (newline # dumps_sample user_a)
   \<and> cache_object dumps_sample ''user_cache'' user_a [''user_cache'' \<mapsto> []] ''user_cache''
     \<noteq> Some (dumps_sample user_a)"
  by (simp add: cache_object_eq file_text_def os_path_exists_def)

text \<open>
  Claim C6, amended. For every file state and every record, the append operation leaves the
  other files as they are and makes the text of the file its text before, a separator and the
  serialized record; the separator is a newline if and only if the file already exists, and
  empty otherwise. So a file that does not exist gets no leading blank line, and a file that
  exists gets the newline whether it has content or not. The record is written as one line:
  when its serialization is not empty and has no newline, as with \<^verbatim>\<open>json.dumps\<close>, the lines of
  the file are the lines of its text before (with the separator) and the serialization as the
  last line.
\<close>

theorem cache_object_separator:
  "\<exists>sep. cache_object dumps p r f = f(p \<mapsto> file_text f p @ sep @ dumps r)
          \<and> (sep = [newline] \<longleftrightarrow> os_path_exists f p)
          \<and> (sep = [] \<longleftrightarrow> \<not> os_path_exists f p)
          \<and> (dumps r \<noteq> [] \<and> newline \<notin> set (dumps r) \<longrightarrow>
               file_lines (file_text f p @ sep @ dumps r)
                 = file_lines (file_text f p @ sep) @ [dumps r])"
proof (cases "os_path_exists f p")
  case True
  have "file_lines (file_text f p @ [newline] @ dumps r)
          = file_lines (file_text f p @ [newline]) @ [dumps r]"
    if "dumps r \<noteq> []" and "newline \<notin> set (dumps r)"
    using file_lines_after_newline [of "file_text f p" "dumps r"] that
    by (simp add: file_lines_single)
  with True show ?thesis
    by (intro exI [of _ "[newline]"]) (simp add: cache_object_eq)
next
  case False
  then have "file_text f p = []"
    by (simp add: file_text_def os_path_exists_def)
  with False show ?thesis
    by (intro exI [of _ "[]"]) (simp add: cache_object_eq file_lines_single)
qed

theorem cache_object_separator_witness:
  "dumps_sample user_a \<noteq> [] \<and> newline \<notin> set (dumps_sample user_a)
   \<and> cache_object dumps_sample ''user_cache'' user_a [''user_cache'' \<mapsto> dumps_sample user_b]
       = [''user_cache'' \<mapsto> dumps_sample user_b @ [newline] @ dumps_sample user_a]
   \<and> file_lines (dumps_sample user_b @ [newline] @ dumps_sample user_a)
       = file_lines (dumps_sample user_b @ [newline]) @ [dumps_sample user_a]
   \<and> cache_object dumps_sample ''user_cache'' user_a Map.empty
       = [''user_cache'' \<mapsto> dumps_sample user_a]"
proof -
  have h: "dumps_sample user_a \<noteq> [] \<and> newline \<notin> set (dumps_sample user_a)"
    by (simp add: user_a_def json_quote_def json_escape_def)
  from cache_object_separator
         [of dumps_sample "''user_cache''" user_a "[''user_cache'' \<mapsto> dumps_sample user_b]"]
  obtain sep where
    s1: "cache_object dumps_sample ''user_cache'' user_a [''user_cache'' \<mapsto> dumps_sample user_b]
          = [''user_cache'' \<mapsto> dumps_sample user_b]
              (''user_cache'' \<mapsto>
                 file_text [''user_cache'' \<mapsto> dumps_sample user_b] ''user_cache'' @ sep
                   @ dumps_sample user_a)"
    and s2: "sep = [newline] \<longleftrightarrow> os_path_exists [''user_cache'' \<mapsto> dumps_sample user_b] ''user_cache''"
    and s3: "dumps_sample user_a \<noteq> [] \<and> newline \<notin> set (dumps_sample user_a) \<longrightarrow>
               file_lines (file_text [''user_cache'' \<mapsto> dumps_sample user_b] ''user_cache'' @ sep
                             @ dumps_sample user_a)
                 = file_lines (file_text [''user_cache'' \<mapsto> dumps_sample user_b] ''user_cache'' @ sep)
                     @ [dumps_sample user_a]"
    by blast
  from s2 have sep: "sep = [newline]"
    by (simp add: os_path_exists_def)
  from cache_object_separator [of dumps_sample "''user_cache''" user_a Map.empty]
  have fresh: "cache_object dumps_sample ''user_cache'' user_a Map.empty
                 = [''user_cache'' \<mapsto> dumps_sample user_a]"
    by (auto simp: file_text_def os_path_exists_def)
  show ?thesis
    using h s1 s3 fresh by (simp add: sep file_text_def)
qed

subsection \<open>Writing a cache and reading it back\<close>

text \<open>The text of a cache after a sequence of appends.\<close>

lemma fold_cache_object_exists:
  assumes "f p = Some c"
  shows "fold (cache_object dumps p) rs f p
           = Some (c @ concat (map (\<lambda>r. newline # dumps r) rs))"
  using assms
proof (induction rs arbitrary: f c)
  case Nil
  then show ?case by simp
next
  case (Cons r rs)
  have "cache_object dumps p r f p = Some (c @ newline # dumps r)"
    using Cons.prems by (simp add: cache_object_eq file_text_def os_path_exists_def)
  with Cons.IH [of "cache_object dumps p r f" "c @ newline # dumps r"] show ?case by simp
qed

lemma fold_cache_object_fresh:
  assumes "f p = None"
  shows "fold (cache_object dumps p) (r # rs) f p
           = Some (dumps r @ concat (map (\<lambda>r. newline # dumps r) rs))"
proof -
  have "cache_object dumps p r f p = Some (dumps r)"
    using assms by (simp add: cache_object_eq file_text_def os_path_exists_def)
  with fold_cache_object_exists [of "cache_object dumps p r f" p "dumps r" dumps rs]
  show ?thesis by simp
qed

lemma load_lines_cache:
  assumes "\<forall>r \<in> set (r0 # rs). serializable dumps loads r"
  shows "load_lines loads (file_lines (dumps r0 @ concat (map (\<lambda>r. newline # dumps r) rs)))
           = Inr (r0 # rs)"
  using assms
proof (induction rs arbitrary: r0)
  case Nil
  then show ?case by (simp add: serializable_def file_lines_single)
next
  case (Cons r rs)
  then have r0: "serializable dumps loads r0" and rest: "\<forall>x \<in> set (r # rs). serializable dumps loads x"
    by simp_all
  have "file_lines (dumps r0 @ newline # (dumps r @ concat (map (\<lambda>r. newline # dumps r) rs)))
          = (dumps r0 @ [newline])
              # file_lines (dumps r @ concat (map (\<lambda>r. newline # dumps r) rs))"
    using r0 by (simp add: file_lines_first serializable_def)
  then show ?case
    using Cons.IH [OF rest] r0 by (simp add: serializable_def)
qed

lemma no_cr_cache:
  assumes "\<forall>r \<in> set rs. carriage_return \<notin> set (dumps r)"
  shows "carriage_return \<notin> set (concat (map (\<lambda>r. newline # dumps r) rs))"
  using assms by (induction rs) auto

text \<open>
  Claim C7 says that the round trip holds for every list of records. For the empty list it does
  not: nothing is appended, the cache file is not created, and reading it fails with
  \<^verbatim>\<open>FileNotFoundError\<close> instead of yielding no record.
\<close>

theorem empty_round_trip_counterexample:
  "read_records (loads_among [user_a, user_b, user_nameless, user_groupless]) ''user_cache''
     (fold (cache_object dumps_sample ''user_cache'') [] Map.empty)
   = Inl (Exn FileNotFoundError ''user_cache'')
   \<and> read_records (loads_among [user_a, user_b, user_nameless, user_groupless]) ''user_cache''
     (fold (cache_object dumps_sample ''user_cache'') [] Map.empty)
   \<noteq> Inr []"
  by (simp add: read_records_def)

text \<open>
  Claim C7, amended. For every non-empty list of serializable records, appending them one at a
  time to a cache file that does not exist yet and then reading the file back line by line
  yields exactly these records, equal to the originals and in write order.
\<close>

theorem cache_round_trip:
  assumes "\<forall>r \<in> set rs. serializable dumps loads r"
    and "rs \<noteq> []"
    and "f p = None"
  shows "read_records loads p (fold (cache_object dumps p) rs f) = Inr rs"
proof -
  from assms(2) obtain r0 rest where rs: "rs = r0 # rest"
    by (cases rs) auto
  let ?body = "dumps r0 @ concat (map (\<lambda>r. newline # dumps r) rest)"
  have body: "fold (cache_object dumps p) rs f p = Some ?body"
    unfolding rs using assms(3) by (rule fold_cache_object_fresh)
  have "carriage_return \<notin> set ?body"
    using assms(1) no_cr_cache [of rest dumps] by (auto simp: rs serializable_def)
  then have "universal_newlines ?body = ?body"
    by (rule universal_newlines_id)
  moreover have "load_lines loads (file_lines ?body) = Inr rs"
    unfolding rs using assms(1) [unfolded rs] by (rule load_lines_cache)
  ultimately show ?thesis
    by (simp add: read_records_def body)
qed

lemma serializable_user_a:
  "serializable dumps_sample (loads_among [user_a, user_b, user_nameless, user_groupless]) user_a"
  by (simp add: serializable_def loads_among_def user_a_def user_b_def user_nameless_def
                user_groupless_def json_quote_def json_escape_def)

lemma serializable_user_b:
  "serializable dumps_sample (loads_among [user_a, user_b, user_nameless, user_groupless]) user_b"
  by (simp add: serializable_def loads_among_def user_a_def user_b_def user_nameless_def
                user_groupless_def json_quote_def json_escape_def)

theorem cache_round_trip_witness:
  "serializable dumps_sample (loads_among [user_a, user_b, user_nameless, user_groupless]) user_a
   \<and> serializable dumps_sample (loads_among [user_a, user_b, user_nameless, user_groupless]) user_b
   \<and> [user_a, user_b] \<noteq> []
   \<and> (Map.empty :: fs) ''user_cache'' = None
   \<and> read_records (loads_among [user_a, user_b, user_nameless, user_groupless]) ''user_cache''
        (fold (cache_object dumps_sample ''user_cache'') [user_a, user_b] Map.empty)
      = Inr [user_a, user_b]"
proof -
  have h1: "\<forall>r \<in> set [user_a, user_b].
      serializable dumps_sample (loads_among [user_a, user_b, user_nameless, user_groupless]) r"
    using serializable_user_a serializable_user_b by simp
  have h2: "[user_a, user_b] \<noteq> []"
    by simp
  have h3: "(Map.empty :: fs) ''user_cache'' = None"
    by simp
  show ?thesis
    using serializable_user_a serializable_user_b h2 h3 cache_round_trip [OF h1 h2 h3]
    by blast
qed

section \<open>Group derivation: the derived set\<close>

text \<open>
  While the users are well formed, the dict \<^verbatim>\<open>groups\<close> maps group names to their records: it
  is the list of the pairs \<open>(JString n, group_record n)\<close> for a list of distinct names.
\<close>

lemma dict_setitem_group:
  "dict_setitem (map (\<lambda>n. (JString n, group_record n)) names) (JString g)
       (JObject [(''name'', JString g)])
     = map (\<lambda>n. (JString n, group_record n)) (if g \<in> set names then names else names @ [g])"
  by (induction names) (auto simp: group_record_def)

lemma add_groups_names:
  assumes "distinct names"
  shows "\<exists>names'. add_groups (map (\<lambda>n. (JString n, group_record n)) names) (map JString gs)
                     = Inr (map (\<lambda>n. (JString n, group_record n)) names')
                 \<and> distinct names' \<and> set names' = set names \<union> set gs"
  using assms
proof (induction gs arbitrary: names)
  case Nil
  then show ?case by auto
next
  case (Cons g gs)
  let ?names = "if g \<in> set names then names else names @ [g]"
  have "distinct ?names"
    using Cons.prems by simp
  from Cons.IH [OF this] obtain names' where
    "add_groups (map (\<lambda>n. (JString n, group_record n)) ?names) (map JString gs)
       = Inr (map (\<lambda>n. (JString n, group_record n)) names')"
    and "distinct names'" and "set names' = set ?names \<union> set gs"
    by blast
  then show ?case
    by (intro exI [of _ names']) (auto simp: dict_setitem_group split: if_splits)
qed

lemma strings_of_JStrings:
  "list_all is_JString gs \<Longrightarrow> map (JString \<circ> string_of) gs = gs"
proof (induction gs)
  case Nil
  then show ?case by simp
next
  case (Cons g gs)
  then show ?case by (cases g) auto
qed

lemma user_groups_well_formed:
  assumes "well_formed_user u"
  shows "user_groups u = Inr (map JString (group_names u))"
  using assms
  by (auto simp: well_formed_user_def group_names_def strings_of_JStrings
           split: json.splits option.splits)

lemma parse_groups_names:
  assumes "\<forall>u \<in> set users. well_formed_user u" and "distinct names"
  shows "\<exists>names'. parse_groups (map (\<lambda>n. (JString n, group_record n)) names) users
                     = Inr (map (\<lambda>n. (JString n, group_record n)) names')
                 \<and> distinct names'
                 \<and> set names' = set names \<union> (\<Union>u \<in> set users. set (group_names u))"
  using assms
proof (induction users arbitrary: names)
  case Nil
  then show ?case by auto
next
  case (Cons u users)
  from Cons.prems have wf: "well_formed_user u" and rest: "\<forall>u \<in> set users. well_formed_user u"
    by simp_all
  from add_groups_names [OF Cons.prems(2), of "group_names u"] obtain names1 where
    a: "add_groups (map (\<lambda>n. (JString n, group_record n)) names) (map JString (group_names u))
          = Inr (map (\<lambda>n. (JString n, group_record n)) names1)"
    and d: "distinct names1" and s: "set names1 = set names \<union> set (group_names u)"
    by blast
  from Cons.IH [OF rest d] obtain names' where
    "parse_groups (map (\<lambda>n. (JString n, group_record n)) names1) users
       = Inr (map (\<lambda>n. (JString n, group_record n)) names')"
    and "distinct names'"
    and "set names' = set names1 \<union> (\<Union>u \<in> set users. set (group_names u))"
    by blast
  then show ?case
    using a s by (intro exI [of _ names']) (auto simp: user_groups_well_formed [OF wf])
qed

lemma inj_group_record: "inj group_record"
  by (simp add: inj_def group_record_def)

lemma derive_groups_names:
  assumes "\<forall>u \<in> set users. well_formed_user u"
  shows "\<exists>names. derive_groups users = Inr (map group_record names) \<and> distinct names
               \<and> set names = (\<Union>u \<in> set users. set (group_names u))"
proof -
  from parse_groups_names [OF assms, of "[]"] obtain names where
    "parse_groups [] users = Inr (map (\<lambda>n. (JString n, group_record n)) names)"
    and "distinct names" and "set names = (\<Union>u \<in> set users. set (group_names u))"
    by auto
  then show ?thesis
    by (intro exI [of _ names]) (simp add: derive_groups_def comp_def)
qed

text \<open>
  Claim C8. For well-formed user records (dicts whose \<^verbatim>\<open>"groups"\<close> field is a list of strings),
  group derivation succeeds and produces the deduplicated set of the records
  \<^verbatim>\<open>{"name": g}\<close> for the group names \<open>g\<close> that appear in the \<^verbatim>\<open>"groups"\<close> field of any user: no
  record twice, and as a set exactly the records of these names. For every permutation of the
  user list the derived set is the same.
\<close>

theorem derive_groups_deduplicated_union:
  assumes "\<forall>u \<in> set users. well_formed_user u"
  shows "\<exists>gs. derive_groups users = Inr gs \<and> distinct gs
            \<and> set gs = group_record ` (\<Union>u \<in> set users. set (group_names u))
            \<and> (\<forall>users'. mset users' = mset users \<longrightarrow>
                  (\<exists>gs'. derive_groups users' = Inr gs' \<and> set gs' = set gs))"
proof -
  from derive_groups_names [OF assms] obtain names where
    d: "derive_groups users = Inr (map group_record names)" and dn: "distinct names"
    and sn: "set names = (\<Union>u \<in> set users. set (group_names u))"
    by blast
  have perm: "\<exists>gs'. derive_groups users' = Inr gs' \<and> set gs' = set (map group_record names)"
    if "mset users' = mset users" for users'
  proof -
    from that have eq: "set users' = set users"
      by (rule mset_eq_setD)
    with assms have "\<forall>u \<in> set users'. well_formed_user u"
      by simp
    from derive_groups_names [OF this] obtain names' where
      "derive_groups users' = Inr (map group_record names')"
      and "set names' = (\<Union>u \<in> set users'. set (group_names u))"
      by blast
    then show ?thesis
      using sn eq by auto
  qed
  show ?thesis
    using d dn sn perm
    by (intro exI [of _ "map group_record names"])
       (simp add: distinct_map inj_group_record [THEN inj_on_subset])
qed

theorem derive_groups_deduplicated_union_witness:
  "well_formed_user user_a \<and> well_formed_user user_b
   \<and> derive_groups [user_a, user_b] = Inr [group_record ''g1'', group_record ''g2'']
   \<and> derive_groups [user_b, user_a] = Inr [group_record ''g1'', group_record ''g2'']
   \<and> mset [user_b, user_a] = mset [user_a, user_b]
   \<and> (\<exists>gs. derive_groups [user_a, user_b] = Inr gs \<and> distinct gs
         \<and> set gs = group_record ` (\<Union>u \<in> set [user_a, user_b]. set (group_names u))
         \<and> (\<exists>gs'. derive_groups [user_b, user_a] = Inr gs' \<and> set gs' = set gs))"
proof -
  have h: "\<forall>u \<in> set [user_a, user_b]. well_formed_user u"
    by (simp add: well_formed_user_def user_a_def user_b_def)
  have m: "mset [user_b, user_a] = mset [user_a, user_b]"
    by simp
  have e1: "derive_groups [user_a, user_b] = Inr [group_record ''g1'', group_record ''g2'']"
    by (simp add: derive_groups_def user_a_def user_b_def group_record_def)
  have e2: "derive_groups [user_b, user_a] = Inr [group_record ''g1'', group_record ''g2'']"
    by (simp add: derive_groups_def user_a_def user_b_def group_record_def)
  from derive_groups_deduplicated_union [OF h] m show ?thesis
    using h e1 e2 by fastforce
qed

section \<open>Discovery that fails\<close>

text \<open>
  Claim C9 says that a run whose discovery raises an error, also before any row was written,
  aborts cleanly with no cache file left. When discovery fails before the first row (here with
  \<^verbatim>\<open>ProgrammingError\<close>, no input file given and no cache reused), there is no cache file: the
  old one was removed before discovery, and none was created. The handler calls
  \<^verbatim>\<open>os.remove(cache_file_path)\<close> without asking whether the file exists, as the removal of the old
  cache does, so \<^verbatim>\<open>FileNotFoundError\<close> leaves \<^verbatim>\<open>main\<close>. No cache file exists afterwards.
\<close>

theorem discovery_failure_before_first_row:
  "main py api \<lparr>rows = [], failure = Some (Exn ProgrammingError m)\<rparr> None False w
     = (Raised (Exn FileNotFoundError (abspath py ''user_cache'')),
        w\<lparr>files := remove_if_exists (abspath py ''user_cache'') (files w)\<rparr>)"
  by (simp add: main_def given_input_def rediscover_def discover_def isinstance_Exception_def
                os_remove_def remove_if_exists_def os_path_exists_def Let_def)

text \<open>
  When discovery fails after at least one row was cached, the handler removes the partial cache
  and the run returns.
\<close>

lemma fold_cache_object_removed:
  "(fold (cache_object dumps p) xs g)(p := None) = g(p := None)"
  by (induction xs arbitrary: g) (simp_all add: cache_object_eq)

lemma rediscover_failure_after_rows:
  assumes "isinstance_Exception e"
  shows "rediscover py \<lparr>rows = r # rs, failure = Some e\<rparr> p f = (Some Aborted, f(p := None))"
proof -
  let ?f1 = "remove_if_exists p f"
  let ?f2 = "fold (cache_object (json_dumps py) p) (r # rs) ?f1"
  have "?f1 p = None"
    by (simp add: remove_if_exists_def os_path_exists_def)
  with fold_cache_object_fresh [of ?f1 p "json_dumps py" r rs]
  obtain c where c: "?f2 p = Some c"
    by blast
  have "?f2(p := None) = ?f1(p := None)"
    by (rule fold_cache_object_removed)
  also have "\<dots> = f(p := None)"
    by (simp add: remove_if_exists_def)
  finally have gone: "?f2(p := None) = f(p := None)" .
  have "discover py \<lparr>rows = r # rs, failure = Some e\<rparr> p ?f1 = (Inl e, ?f2)"
    by (simp add: discover_def del: fold_simps)
  moreover have "os_remove p ?f2 = Inr (f(p := None))"
    using c gone by (simp add: os_remove_def)
  ultimately show ?thesis
    using assms by (simp add: rediscover_def Let_def del: fold_simps)
qed

section \<open>Group derivation that fails\<close>

lemma parse_groups_missing_key:
  assumes "JObject kvs \<in> set users" and "map_of kvs ''groups'' = None"
  shows "\<exists>e. parse_groups groups users = Inl e"
  using assms
proof (induction users arbitrary: groups)
  case Nil
  then show ?case by simp
next
  case (Cons u users)
  show ?case
  proof (cases "u = JObject kvs")
    case True
    then show ?thesis
      using Cons.prems(2) by simp
  next
    case False
    with Cons.prems have "JObject kvs \<in> set users"
      by simp
    from Cons.IH [OF this Cons.prems(2)] show ?thesis
      by (auto split: sum.splits)
  qed
qed

text \<open>
  Claim C10. For every list of user records that contains a user record (a dict) without the
  key \<^verbatim>\<open>"groups"\<close>, group derivation raises an error, which nothing catches: the run ends with
  this exception before the first import pass, and the state is as it was, so no call to the
  Remote API Client was made and no file (log or retry cache) was written or removed.
\<close>

theorem missing_groups_key_aborts:
  assumes "JObject kvs \<in> set users" and "map_of kvs ''groups'' = None"
  shows "\<exists>e. derive_groups users = Inl e \<and> main_import py api users w = (Raised e, w)"
proof -
  from parse_groups_missing_key [OF assms] obtain e where "parse_groups [] users = Inl e"
    by blast
  then have "derive_groups users = Inl e"
    by (simp add: derive_groups_def)
  moreover from assms(1) have "users \<noteq> []"
    by auto
  ultimately show ?thesis
    by (simp add: main_import_def)
qed

theorem missing_groups_key_aborts_witness:
  "JObject [(''username'', JString ''c'')] \<in> set [user_a, user_groupless]
   \<and> map_of [(''username'', JString ''c'')] ''groups'' = None
   \<and> derive_groups [user_a, user_groupless] = Inl (Exn KeyError ''groups'')
   \<and> main_import py_sample (api_returning True) [user_a, user_groupless] world0
       = (Raised (Exn KeyError ''groups''), world0)"
proof -
  have h1: "JObject [(''username'', JString ''c'')] \<in> set [user_a, user_groupless]"
    by (simp add: user_groupless_def)
  have h2: "map_of [(''username'', JString ''c'')] ''groups'' = None"
    by simp
  have e: "derive_groups [user_a, user_groupless] = Inl (Exn KeyError ''groups'')"
    by (simp add: derive_groups_def user_a_def user_groupless_def)
  from missing_groups_key_aborts [OF h1 h2, of py_sample "api_returning True" world0]
  show ?thesis
    using h1 h2 e by auto
qed

end
